theory Spec2Isabelle
  imports Main "HOL-Library.Multiset"
begin

section \<open>Python values and the builtins the two modules rely on\<close>

text \<open>
  The modules \<^verbatim>\<open>seller.py\<close> and \<^verbatim>\<open>market.py\<close> read loosely typed spreadsheet rows
  (\<^verbatim>\<open>pd.read_excel(...).to_dict(orient="records")\<close>) through \<^verbatim>\<open>dict.get\<close> and
  convert them with \<^verbatim>\<open>str\<close>, \<^verbatim>\<open>int\<close>, \<^verbatim>\<open>str.split\<close> and \<^verbatim>\<open>re.sub\<close>. A cell is a
  string or an integer; \<^verbatim>\<open>dict.get\<close> yields \<^verbatim>\<open>None\<close> for a missing key, which is the
  \<open>None\<close> of \<open>pyval option\<close>. Floating point cells are outside the model.

  Strings are byte strings (UTF-8). The operations used on them only look for the
  ASCII characters \<^verbatim>\<open>.\<close>, \<^verbatim>\<open>0\<close> to \<^verbatim>\<open>9\<close>, sign, underscore and ASCII white space;
  no byte of a multi-byte UTF-8 sequence is one of these. Python's \<^verbatim>\<open>int\<close> would in
  addition accept non-ASCII decimal digits and white space, and refuses strings of more
  than 4300 digits under its default configuration; both are outside the model.

  Every exception the modelled code can raise is a value of \<open>error\<close>; a function that
  can raise returns \<open>error + 'a\<close> with \<open>Inl\<close> for the exception.
\<close>

datatype error = ValueError | TypeError | AttributeError

datatype pyval = PStr string | PInt int

subsection \<open>\<^verbatim>\<open>str(x)\<close>\<close>

definition digit_char :: "nat \<Rightarrow> char" where
  "digit_char d = char_of (48 + d)"

function str_nat :: "nat \<Rightarrow> string" where
  "str_nat n = (if n < 10 then [digit_char n] else str_nat (n div 10) @ [digit_char (n mod 10)])"
  by pat_completeness auto
termination
  by (relation "measure id") auto

declare str_nat.simps [simp del]

definition str_int :: "int \<Rightarrow> string" where
  "str_int i = (if i < 0 then CHR ''-'' # str_nat (nat (- i)) else str_nat (nat i))"

fun py_str :: "pyval option \<Rightarrow> string" where
  "py_str None = ''None''"
| "py_str (Some (PStr s)) = s"
| "py_str (Some (PInt i)) = str_int i"

subsection \<open>\<^verbatim>\<open>int(x)\<close>\<close>

definition is_digit :: "char \<Rightarrow> bool" where
  "is_digit c = (c \<in> set ''0123456789'')"

definition digit_val :: "char \<Rightarrow> nat" where
  "digit_val c = of_char c - 48"

definition is_space :: "char \<Rightarrow> bool" where
  "is_space c = (c \<in> set [CHR '' '', CHR 0x09, CHR 0x0A, CHR 0x0B, CHR 0x0C, CHR 0x0D,
                            CHR 0x1C, CHR 0x1D, CHR 0x1E, CHR 0x1F])"

definition strip :: "string \<Rightarrow> string" where
  "strip s = rev (dropWhile is_space (rev (dropWhile is_space s)))"

text \<open>
  The digits of an integer literal, after the first digit has been read into the
  accumulator: more digits, each optionally preceded by one underscore.
\<close>

fun digits_acc :: "string \<Rightarrow> nat \<Rightarrow> nat option" where
  "digits_acc [] a = Some a"
| "digits_acc (c # cs) a =
     (if is_digit c then digits_acc cs (10 * a + digit_val c)
      else if c = CHR ''_'' then
        (case cs of
           [] \<Rightarrow> None
         | d # ds \<Rightarrow> if is_digit d then digits_acc ds (10 * a + digit_val d) else None)
      else None)"

fun nat_of_digits :: "string \<Rightarrow> nat option" where
  "nat_of_digits [] = None"
| "nat_of_digits (c # cs) = (if is_digit c then digits_acc cs (digit_val c) else None)"

definition int_of_str :: "string \<Rightarrow> int option" where
  "int_of_str s =
     (case strip s of
        [] \<Rightarrow> None
      | c # cs \<Rightarrow>
          if c = CHR ''-'' then map_option (\<lambda>n. - int n) (nat_of_digits cs)
          else if c = CHR ''+'' then map_option int (nat_of_digits cs)
          else map_option int (nat_of_digits (c # cs)))"

fun py_int :: "pyval option \<Rightarrow> error + int" where
  "py_int None = Inl TypeError"
| "py_int (Some (PInt i)) = Inr i"
| "py_int (Some (PStr s)) = (case int_of_str s of None \<Rightarrow> Inl ValueError | Some i \<Rightarrow> Inr i)"

subsection \<open>\<^verbatim>\<open>range(start, stop, step)\<close> and slices\<close>

function range_up :: "int \<Rightarrow> int \<Rightarrow> int \<Rightarrow> int list" where
  "range_up i stop step =
     (if 0 < step \<and> i < stop then i # range_up (i + step) stop step else [])"
  by pat_completeness auto
termination
  by (relation "measure (\<lambda>(i, stop, step). nat (stop - i))") auto

function range_down :: "int \<Rightarrow> int \<Rightarrow> int \<Rightarrow> int list" where
  "range_down i stop step =
     (if step < 0 \<and> stop < i then i # range_down (i + step) stop step else [])"
  by pat_completeness auto
termination
  by (relation "measure (\<lambda>(i, stop, step). nat (i - stop))") auto

declare range_up.simps [simp del] range_down.simps [simp del]

text \<open>\<^verbatim>\<open>range\<close> raises \<^verbatim>\<open>ValueError\<close> for a zero step and is empty when the step points
  away from \<^verbatim>\<open>stop\<close>.\<close>

definition py_range :: "int \<Rightarrow> int \<Rightarrow> int \<Rightarrow> error + int list" where
  "py_range start stop step =
     (if step = 0 then Inl ValueError
      else if 0 < step then Inr (range_up start stop step)
      else Inr (range_down start stop step))"

text \<open>\<^verbatim>\<open>lst[i:j]\<close>: negative bounds count from the end, and both bounds are clamped to the
  list.\<close>

definition py_slice :: "'a list \<Rightarrow> int \<Rightarrow> int \<Rightarrow> 'a list" where
  "py_slice lst i j =
     (let n = int (length lst);
          lo = (if i < 0 then max 0 (i + n) else min i n);
          hi = (if j < 0 then max 0 (j + n) else min j n)
      in take (nat (hi - lo)) (drop (nat lo) lst))"

section \<open>The data model\<close>

text \<open>
  A remnant row is a dictionary that the code reads only through
  \<^verbatim>\<open>watch.get(key)\<close> for the three Cyrillic column names meaning "code", "quantity"
  and "price"; the record holds the result of each of the three lookups
  (\<open>None\<close> when the column is missing).
\<close>

record watch =
  Kod :: "pyval option"
  Kolichestvo :: "pyval option"
  Tsena :: "pyval option"

text \<open>The entries \<^verbatim>\<open>seller.py\<close> builds: \<^verbatim>\<open>{"offer_id": ..., "stock": ...}\<close> and the
  five-field price dictionary.\<close>

record stock_entry =
  offer_id :: string
  stock :: int

record price_entry =
  auto_action_enabled :: string
  currency_code :: string
  price_offer_id :: string
  old_price :: string
  price :: string

text \<open>The entries \<^verbatim>\<open>market.py\<close> builds:
  \<^verbatim>\<open>{"sku", "warehouseId", "items": [{"count", "type", "updatedAt"}]}\<close> and
  \<^verbatim>\<open>{"id", "price": {"value", "currencyId"}}\<close>.\<close>

record stock_item =
  item_count :: int
  item_type :: string
  updatedAt :: string

record market_stock =
  sku :: string
  warehouseId :: string
  items :: "stock_item list"

record price_value =
  pv_value :: int
  currencyId :: string

record market_price =
  mp_id :: string
  mp_price :: price_value

section \<open>\<^verbatim>\<open>seller.py\<close>\<close>

subsection \<open>\<^verbatim>\<open>price_conversion\<close>\<close>

text \<open>
  \<^verbatim>\<open>return re.sub("[^0-9]", "", price.split(".")[0])\<close>.
  The argument is whatever \<^verbatim>\<open>watch.get\<close> returned; only a string has \<^verbatim>\<open>split\<close>.
  \<^verbatim>\<open>split(".")[0]\<close> is the text before the first dot (the whole text when there is
  none), and the substitution deletes every character that is not an ASCII digit.
\<close>

fun price_conversion :: "pyval option \<Rightarrow> error + string" where
  "price_conversion (Some (PStr p)) = Inr (filter is_digit (takeWhile (\<lambda>c. c \<noteq> CHR ''.'') p))"
| "price_conversion (Some (PInt i)) = Inl AttributeError"
| "price_conversion None = Inl AttributeError"

subsection \<open>\<^verbatim>\<open>create_stocks\<close>\<close>

text \<open>
  The branch on \<^verbatim>\<open>count = str(watch.get(quantity))\<close> that both \<^verbatim>\<open>create_stocks\<close>
  functions contain: \<^verbatim>\<open>">10"\<close> gives 100, \<^verbatim>\<open>"1"\<close> gives 0, anything else is
  \<^verbatim>\<open>int(watch.get(quantity))\<close>.
\<close>

definition stock_of_count :: "pyval option \<Rightarrow> error + int" where
  "stock_of_count q =
     (let count = py_str q
      in if count = ''>10'' then Inr 100
         else if count = ''1'' then Inr 0
         else py_int q)"

text \<open>
  The first loop of \<^verbatim>\<open>create_stocks\<close>. \<open>ids\<close> is the current content of the caller's
  list \<^verbatim>\<open>offer_ids\<close>, which \<^verbatim>\<open>offer_ids.remove\<close> changes in place (it deletes the first
  occurrence); \<open>stocks\<close> is the list built so far. The loop returns both.
\<close>

fun seller_stocks_loop ::
  "watch list \<Rightarrow> string list \<Rightarrow> stock_entry list \<Rightarrow> error + (stock_entry list \<times> string list)"
where
  "seller_stocks_loop [] ids stocks = Inr (stocks, ids)"
| "seller_stocks_loop (w # ws) ids stocks =
     (if py_str (Kod w) \<in> set ids then
        (case stock_of_count (Kolichestvo w) of
           Inl e \<Rightarrow> Inl e
         | Inr st \<Rightarrow>
             seller_stocks_loop ws (remove1 (py_str (Kod w)) ids)
               (stocks @ [\<lparr>offer_id = py_str (Kod w), stock = st\<rparr>]))
      else seller_stocks_loop ws ids stocks)"

text \<open>
  \<^verbatim>\<open>create_stocks(watch_remnants, offer_ids)\<close>: the first loop, then one zero entry for
  every id left in the list. The second component of the result is the content of the
  caller's list when the function returns.
\<close>

definition seller_create_stocks ::
  "watch list \<Rightarrow> string list \<Rightarrow> error + (stock_entry list \<times> string list)"
where
  "seller_create_stocks watch_remnants offer_ids =
     (case seller_stocks_loop watch_remnants offer_ids [] of
        Inl e \<Rightarrow> Inl e
      | Inr (stocks, ids) \<Rightarrow>
          Inr (stocks @ map (\<lambda>i. \<lparr>offer_id = i, stock = 0\<rparr>) ids, ids))"

subsection \<open>\<^verbatim>\<open>create_prices\<close>\<close>

fun seller_prices_loop ::
  "watch list \<Rightarrow> string list \<Rightarrow> price_entry list \<Rightarrow> error + price_entry list"
where
  "seller_prices_loop [] ids prices = Inr prices"
| "seller_prices_loop (w # ws) ids prices =
     (if py_str (Kod w) \<in> set ids then
        (case price_conversion (Tsena w) of
           Inl e \<Rightarrow> Inl e
         | Inr p \<Rightarrow>
             seller_prices_loop ws ids
               (prices @ [\<lparr>auto_action_enabled = ''UNKNOWN'', currency_code = ''RUB'',
                           price_offer_id = py_str (Kod w), old_price = ''0'', price = p\<rparr>]))
      else seller_prices_loop ws ids prices)"

definition seller_create_prices :: "watch list \<Rightarrow> string list \<Rightarrow> error + price_entry list" where
  "seller_create_prices watch_remnants offer_ids = seller_prices_loop watch_remnants offer_ids []"

subsection \<open>\<^verbatim>\<open>divide\<close>\<close>

text \<open>
  \<^verbatim>\<open>for i in range(0, len(lst), n): yield lst[i : i + n]\<close>.
  Every caller consumes the generator at once (\<^verbatim>\<open>list(divide(...))\<close>); the model is that
  list, or the exception raised while it is built.
\<close>

definition divide :: "'a list \<Rightarrow> int \<Rightarrow> error + 'a list list" where
  "divide lst n =
     (case py_range 0 (int (length lst)) n of
        Inl e \<Rightarrow> Inl e
      | Inr is \<Rightarrow> Inr (map (\<lambda>i. py_slice lst i (i + n)) is))"

subsection \<open>The reconciliation steps of \<^verbatim>\<open>main\<close>\<close>

text \<open>
  A Python list is passed by reference. \<open>heap\<close> maps the address of a list object to its
  content; a call that mutates its argument returns the updated heap.
\<close>

type_synonym heap = "nat \<Rightarrow> string list"

definition create_stocks_at ::
  "watch list \<Rightarrow> nat \<Rightarrow> heap \<Rightarrow> error + (stock_entry list \<times> heap)"
where
  "create_stocks_at watch_remnants ref h =
     (case seller_create_stocks watch_remnants (h ref) of
        Inl e \<Rightarrow> Inl e
      | Inr (stocks, ids) \<Rightarrow> Inr (stocks, h(ref := ids)))"

definition create_prices_at :: "watch list \<Rightarrow> nat \<Rightarrow> heap \<Rightarrow> error + price_entry list" where
  "create_prices_at watch_remnants ref h = seller_create_prices watch_remnants (h ref)"

text \<open>
  \<^verbatim>\<open>seller.main\<close>, from the two inputs it obtained (\<^verbatim>\<open>get_offer_ids\<close> stored the ids in the
  list object at \<open>ref\<close>) to the two lists it uploads:
  \<^verbatim>\<open>stocks = create_stocks(watch_remnants, offer_ids)\<close> followed by
  \<^verbatim>\<open>prices = create_prices(watch_remnants, offer_ids)\<close> on the same list object. The
  uploads themselves are requests to the marketplace and are not modelled.
\<close>

definition seller_main ::
  "watch list \<Rightarrow> nat \<Rightarrow> heap \<Rightarrow> error + ((stock_entry list \<times> price_entry list) \<times> heap)"
where
  "seller_main watch_remnants ref h =
     (case create_stocks_at watch_remnants ref h of
        Inl e \<Rightarrow> Inl e
      | Inr (stocks, h') \<Rightarrow>
          (case create_prices_at watch_remnants ref h' of
             Inl e \<Rightarrow> Inl e
           | Inr prices \<Rightarrow> Inr ((stocks, prices), h')))"

section \<open>\<^verbatim>\<open>market.py\<close>\<close>

text \<open>
  \<^verbatim>\<open>create_stocks(watch_remnants, offer_ids, warehouse_id)\<close> reads the clock once,
  \<^verbatim>\<open>date = str(datetime.datetime.utcnow().replace(microsecond=0).isoformat() + "Z")\<close>,
  before the loop; \<open>date\<close> is that string.
\<close>

fun market_stocks_loop ::
  "string \<Rightarrow> string \<Rightarrow> watch list \<Rightarrow> string list \<Rightarrow> market_stock list
     \<Rightarrow> error + (market_stock list \<times> string list)"
where
  "market_stocks_loop warehouse_id date [] ids stocks = Inr (stocks, ids)"
| "market_stocks_loop warehouse_id date (w # ws) ids stocks =
     (if py_str (Kod w) \<in> set ids then
        (case stock_of_count (Kolichestvo w) of
           Inl e \<Rightarrow> Inl e
         | Inr st \<Rightarrow>
             market_stocks_loop warehouse_id date ws (remove1 (py_str (Kod w)) ids)
               (stocks @ [\<lparr>sku = py_str (Kod w), warehouseId = warehouse_id,
                           items = [\<lparr>item_count = st, item_type = ''FIT'',
                                     updatedAt = date\<rparr>]\<rparr>]))
      else market_stocks_loop warehouse_id date ws ids stocks)"

definition market_create_stocks ::
  "string \<Rightarrow> watch list \<Rightarrow> string list \<Rightarrow> string \<Rightarrow> error + (market_stock list \<times> string list)"
where
  "market_create_stocks date watch_remnants offer_ids warehouse_id =
     (case market_stocks_loop warehouse_id date watch_remnants offer_ids [] of
        Inl e \<Rightarrow> Inl e
      | Inr (stocks, ids) \<Rightarrow>
          Inr (stocks @ map (\<lambda>i. \<lparr>sku = i, warehouseId = warehouse_id,
                                   items = [\<lparr>item_count = 0, item_type = ''FIT'',
                                             updatedAt = date\<rparr>]\<rparr>) ids, ids))"

text \<open>The price value of \<^verbatim>\<open>market.create_prices\<close>:
  \<^verbatim>\<open>int(price_conversion(watch.get(price)))\<close>.\<close>

definition market_price_value :: "pyval option \<Rightarrow> error + int" where
  "market_price_value v =
     (case price_conversion v of Inl e \<Rightarrow> Inl e | Inr s \<Rightarrow> py_int (Some (PStr s)))"

fun market_prices_loop ::
  "watch list \<Rightarrow> string list \<Rightarrow> market_price list \<Rightarrow> error + market_price list"
where
  "market_prices_loop [] ids prices = Inr prices"
| "market_prices_loop (w # ws) ids prices =
     (if py_str (Kod w) \<in> set ids then
        (case market_price_value (Tsena w) of
           Inl e \<Rightarrow> Inl e
         | Inr v \<Rightarrow>
             market_prices_loop ws ids
               (prices @ [\<lparr>mp_id = py_str (Kod w),
                           mp_price = \<lparr>pv_value = v, currencyId = ''RUR''\<rparr>\<rparr>]))
      else market_prices_loop ws ids prices)"

definition market_create_prices :: "watch list \<Rightarrow> string list \<Rightarrow> error + market_price list" where
  "market_create_prices watch_remnants offer_ids = market_prices_loop watch_remnants offer_ids []"

section \<open>Reference definitions\<close>

text \<open>
  The quantity rule in the words of the specification (section 4.2): the descriptor
  \<^verbatim>\<open>">10"\<close> maps to 100, \<^verbatim>\<open>"1"\<close> maps to 0, any other descriptor is parsed as a base-10
  integer, and the mapping fails when the parse fails. The failure the specification
  calls \<^verbatim>\<open>InvalidQuantityError\<close> is the \<^verbatim>\<open>ValueError\<close> of \<^verbatim>\<open>int\<close>.
\<close>

definition QuantityMapper :: "string \<Rightarrow> error + int" where
  "QuantityMapper descriptor =
     (if descriptor = ''>10'' then Inr 100
      else if descriptor = ''1'' then Inr 0
      else (case int_of_str descriptor of Some n \<Rightarrow> Inr n | None \<Rightarrow> Inl ValueError))"

text \<open>A quantity cell that is the string \<^verbatim>\<open>">10"\<close>, the string \<^verbatim>\<open>"1"\<close> or a string that
  \<^verbatim>\<open>int\<close> accepts.\<close>

fun valid_descriptor :: "pyval option \<Rightarrow> bool" where
  "valid_descriptor (Some (PStr d)) = (d = ''>10'' \<or> d = ''1'' \<or> int_of_str d \<noteq> None)"
| "valid_descriptor (Some (PInt i)) = False"
| "valid_descriptor None = False"

text \<open>The text before the first dot, \<^verbatim>\<open>price.split(".")[0]\<close>.\<close>

definition before_dot :: "string \<Rightarrow> string" where
  "before_dot p = takeWhile (\<lambda>c. c \<noteq> CHR ''.'') p"

section \<open>Batching: \<^verbatim>\<open>divide\<close>\<close>

lemma range_up_step:
  "0 < step \<Longrightarrow> i < stop \<Longrightarrow> range_up i stop step = i # range_up (i + step) stop step"
  by (subst range_up.simps) simp

lemma range_up_done: "\<not> (0 < step \<and> i < stop) \<Longrightarrow> range_up i stop step = []"
  by (subst range_up.simps) simp

lemma range_down_done: "\<not> (step < 0 \<and> stop < i) \<Longrightarrow> range_down i stop step = []"
  by (subst range_down.simps) simp

text \<open>Inside the list a slice of positive width is \<open>take\<close> after \<open>drop\<close>.\<close>

lemma py_slice_chunk:
  assumes "0 \<le> i" "i < int (length lst)" "0 < step"
  shows "py_slice lst i (i + step) = take (nat step) (drop (nat i) lst)"
proof -
  have "take (nat (min (i + step) (int (length lst)) - i)) (drop (nat i) lst)
        = take (nat step) (drop (nat i) lst)"
  proof (cases "i + step \<le> int (length lst)")
    case True
    then show ?thesis by (simp add: min_def)
  next
    case False
    then have "nat (int (length lst) - i) = length (drop (nat i) lst)"
      using assms by simp
    moreover have "length (drop (nat i) lst) \<le> nat step"
      using False assms by simp
    ultimately show ?thesis using False by (simp add: min_def)
  qed
  then show ?thesis using assms by (simp add: py_slice_def Let_def min_def)
qed

lemma concat_chunks:
  "0 < step \<Longrightarrow> 0 \<le> i \<Longrightarrow>
   concat (map (\<lambda>i. py_slice lst i (i + step)) (range_up i (int (length lst)) step))
     = drop (nat i) lst"
proof (induction i "int (length lst)" step rule: range_up.induct)
  case (1 i step)
  show ?case
  proof (cases "i < int (length lst)")
    case True
    have ih: "concat (map (\<lambda>i. py_slice lst i (i + step))
                (range_up (i + step) (int (length lst)) step)) = drop (nat (i + step)) lst"
      using 1 True by simp
    have "nat (i + step) = nat step + nat i" using 1 by (simp add: nat_add_distrib)
    then have "drop (nat (i + step)) lst = drop (nat step) (drop (nat i) lst)"
      by simp
    then have "take (nat step) (drop (nat i) lst) @ drop (nat (i + step)) lst = drop (nat i) lst"
      by (simp only: append_take_drop_id)
    with ih True 1(2,3) show ?thesis
      by (simp only: range_up_step py_slice_chunk list.map concat.simps)
  next
    case False
    then show ?thesis using 1(2,3) by (simp add: range_up_done)
  qed
qed

lemma chunk_lengths:
  "0 < step \<Longrightarrow> 0 \<le> i \<Longrightarrow>
   chunks = map (\<lambda>i. py_slice lst i (i + step)) (range_up i (int (length lst)) step) \<Longrightarrow>
   (\<forall>c \<in> set chunks. 1 \<le> length c \<and> int (length c) \<le> step) \<and>
   (\<forall>c \<in> set (butlast chunks). int (length c) = step)"
proof (induction i "int (length lst)" step arbitrary: chunks rule: range_up.induct)
  case (1 i step)
  show ?case
  proof (cases "i < int (length lst)")
    case True
    define rest where "rest = map (\<lambda>i. py_slice lst i (i + step))
                (range_up (i + step) (int (length lst)) step)"
    have ih: "(\<forall>c \<in> set rest. 1 \<le> length c \<and> int (length c) \<le> step) \<and>
              (\<forall>c \<in> set (butlast rest). int (length c) = step)"
      using 1 True rest_def by simp
    have ch: "chunks = take (nat step) (drop (nat i) lst) # rest"
      using 1(2,3,4) True unfolding rest_def
      by (simp add: range_up_step py_slice_chunk)
    have len: "1 \<le> length (take (nat step) (drop (nat i) lst))"
              "int (length (take (nat step) (drop (nat i) lst))) \<le> step"
      using True 1(2,3) by auto
    have full: "rest \<noteq> [] \<Longrightarrow> int (length (take (nat step) (drop (nat i) lst))) = step"
    proof -
      assume "rest \<noteq> []"
      then have "i + step < int (length lst)"
        unfolding rest_def using range_up_done [of step "i + step" "int (length lst)"] by auto
      then show ?thesis using 1(2,3) by auto
    qed
    show ?thesis using ih len full unfolding ch by auto
  next
    case False
    then show ?thesis using 1(4) by (simp add: range_up_done)
  qed
qed

lemma divide_positive:
  "0 < n \<Longrightarrow>
   divide L n = Inr (map (\<lambda>i. py_slice L i (i + n)) (range_up 0 (int (length L)) n))"
  by (simp add: divide_def py_range_def)

lemma divide_nonpositive:
  "divide L 0 = Inl ValueError" "n < 0 \<Longrightarrow> divide L n = Inr []"
  by (simp_all add: divide_def py_range_def range_down_done)

text \<open>
  Claim C6. For every list \<open>L\<close> and every size \<open>n \<ge> 1\<close>, \<^verbatim>\<open>divide(L, n)\<close> produces its
  chunks without an exception; the chunks concatenated in order are \<open>L\<close>; every chunk
  but the last has exactly \<open>n\<close> elements; and when \<open>L\<close> is not empty there is a last
  chunk, of at least one and at most \<open>n\<close> elements.
\<close>

theorem divide_chunks:
  assumes "1 \<le> n"
  shows "\<exists>chunks. divide L n = Inr chunks \<and> concat chunks = L \<and>
           (\<forall>k. Suc k < length chunks \<longrightarrow> int (length (chunks ! k)) = n) \<and>
           (L \<noteq> [] \<longrightarrow> chunks \<noteq> [] \<and> 1 \<le> length (last chunks) \<and>
                       int (length (last chunks)) \<le> n)"
proof -
  define chunks where
    "chunks = map (\<lambda>i. py_slice L i (i + n)) (range_up 0 (int (length L)) n)"
  have pos: "0 < n" using assms by simp
  have d: "divide L n = Inr chunks"
    unfolding chunks_def using pos by (rule divide_positive)
  have c: "concat chunks = L"
    unfolding chunks_def using concat_chunks [OF pos, of 0 L] by simp
  have l: "(\<forall>c \<in> set chunks. 1 \<le> length c \<and> int (length c) \<le> n) \<and>
           (\<forall>c \<in> set (butlast chunks). int (length c) = n)"
    using chunk_lengths [OF pos _ chunks_def] by simp
  have full: "int (length (chunks ! k)) = n" if "Suc k < length chunks" for k
  proof -
    from that have "k < length (butlast chunks)" by simp
    then have "butlast chunks ! k \<in> set (butlast chunks)" by (rule nth_mem)
    moreover have "butlast chunks ! k = chunks ! k"
      using \<open>k < length (butlast chunks)\<close> by (rule nth_butlast)
    ultimately show ?thesis using l by auto
  qed
  have ne: "chunks \<noteq> []" if "L \<noteq> []"
    using that c by auto
  have lst: "1 \<le> length (last chunks) \<and> int (length (last chunks)) \<le> n" if "L \<noteq> []"
    using ne [OF that] l last_in_set [of chunks] by blast
  show ?thesis using d c full ne lst by blast
qed

theorem divide_chunks_witness:
  "(1::int) \<le> 2 \<and>
   (\<exists>chunks. divide [10, 20, 30, 40, 50 :: int] 2 = Inr chunks \<and>
      concat chunks = [10, 20, 30, 40, 50] \<and>
      (\<forall>k. Suc k < length chunks \<longrightarrow> int (length (chunks ! k)) = 2) \<and>
      ([10, 20, 30, 40, 50 :: int] \<noteq> [] \<longrightarrow> chunks \<noteq> [] \<and> 1 \<le> length (last chunks) \<and>
         int (length (last chunks)) \<le> 2))"
proof -
  have h: "(1::int) \<le> 2" by simp
  show ?thesis using h divide_chunks [OF h, of "[10, 20, 30, 40, 50 :: int]"] by simp
qed

text \<open>
  Claim C7 says that \<^verbatim>\<open>divide\<close> fails for every size \<open>\<le> 0\<close>, and the docstring of
  \<^verbatim>\<open>divide\<close> promises the same (\<^verbatim>\<open>ValueError\<close> "if n is negative or zero", with the
  example \<^verbatim>\<open>list(divide([1, 2, 3, 4], -1))\<close>). The code raises only for size 0, where
  \<^verbatim>\<open>range\<close> refuses the zero step; for a negative size the range is empty and the
  result is the empty sequence of chunks, the elements of the list silently dropped.
\<close>

theorem divide_negative_size:
  "divide [1, 2, 3, 4 :: int] (- 1) = Inr [] \<and> divide [1, 2, 3, 4 :: int] 0 = Inl ValueError"
  by (simp add: divide_def py_range_def range_down_done)

end
